theory Spec2Isabelle
  imports Main
begin

section \<open>Values shared by the three stacks\<close>

text \<open>
  The repository is three CDK stacks (\<^verbatim>\<open>IamStack\<close>, \<^verbatim>\<open>DatabaseStack\<close>,
  \<^verbatim>\<open>ContainerStack\<close>) and the program \<^verbatim>\<open>app.py\<close> that instantiates them.
  Each stack's \<^verbatim>\<open>__init__\<close> is one definition below; every construct call
  \<^verbatim>\<open>X(self, "Id", ...)\<close> registers a child named \<^verbatim>\<open>"Id"\<close> in the stack,
  in the order in which Python evaluates the calls.

  A string handed to a construct is either written out in the source or read from
  another construct's attribute (\<^verbatim>\<open>vpc.vpc_cidr_block\<close>,
  \<^verbatim>\<open>repo.repository_arn\<close>), which stands for the attribute of that declared
  resource and is fixed only when the resource exists.
\<close>

datatype strval =
    Lit string
  | Attr string string

datatype removal_policy = DESTROY | RETAIN | SNAPSHOT

datatype effect = ALLOW | DENY

datatype duration = Days int | Seconds int

record environment =
  region :: string
  account :: "string option"

text \<open>
  What a call into the provisioning library raises: \<^verbatim>\<open>TypeError\<close>, with the name
  of the argument it refuses, and \<^verbatim>\<open>RuntimeError\<close>, with the value it refuses.
\<close>

datatype error = TypeError string | RuntimeError string

text \<open>
  \<^verbatim>\<open>iam.PolicyStatement(effect=..., actions=[...], resources=[...])\<close>. The statement
  keeps its actions and its resources as ordered sets: an entry that is already there is
  not added again, and the others stay in the order of their first occurrence.
\<close>

record policy_statement =
  effect :: effect
  actions :: "string list"
  resources :: "strval list"

fun push_all :: "'a list \<Rightarrow> 'a list \<Rightarrow> 'a list" where
  "push_all acc [] = acc"
| "push_all acc (x # xs) =
     (if x \<in> set acc then push_all acc xs else push_all (acc @ [x]) xs)"

definition ordered_set :: "'a list \<Rightarrow> 'a list" where
  "ordered_set xs = push_all [] xs"

definition PolicyStatement :: "effect \<Rightarrow> string list \<Rightarrow> strval list \<Rightarrow> policy_statement" where
  "PolicyStatement eff acts res =
     \<lparr>effect = eff, actions = ordered_set acts, resources = ordered_set res\<rparr>"

text \<open>\<^verbatim>\<open>iam.Role(self, id, assumed_by=iam.ServicePrincipal(...), description=...,
  managed_policies=[...])\<close>; \<^verbatim>\<open>add_to_policy\<close> appends a statement to the role's
  inline policy.\<close>

record role =
  role_id :: string
  assumed_by :: string
  role_description :: string
  managed_policies :: "string list"
  statements :: "policy_statement list"

definition Role :: "string \<Rightarrow> string \<Rightarrow> string \<Rightarrow> string list \<Rightarrow> role" where
  "Role cid svc descr managed =
     \<lparr>role_id = cid, assumed_by = svc, role_description = descr,
      managed_policies = managed, statements = []\<rparr>"

definition add_to_policy :: "role \<Rightarrow> policy_statement \<Rightarrow> role" where
  "add_to_policy r st = r\<lparr>statements := statements r @ [st]\<rparr>"

definition role_arn :: "role \<Rightarrow> strval" where
  "role_arn r = Attr (role_id r) ''Arn''"

text \<open>A role imported with \<^verbatim>\<open>iam.Role.from_role_arn\<close>: known only by its ARN
  string.\<close>

record imported_role =
  imported_id :: string
  imported_arn :: string

text \<open>\<^verbatim>\<open>ecr.LifecycleRule\<close> and \<^verbatim>\<open>ecr.Repository\<close>\<close>

record lifecycle_rule =
  max_image_count :: int
  lifecycle_description :: string

record repository =
  repository_id :: string
  repository_name :: string
  repository_removal_policy :: removal_policy
  image_scan_on_push :: bool
  lifecycle_rules :: "lifecycle_rule list"

definition repository_arn :: "repository \<Rightarrow> strval" where
  "repository_arn r = Attr (repository_id r) ''Arn''"

definition repository_uri :: "repository \<Rightarrow> strval" where
  "repository_uri r = Attr (repository_id r) ''RepositoryUri''"

text \<open>\<^verbatim>\<open>CfnOutput(self, id, value=..., description=...)\<close>\<close>

record cfn_output =
  output_id :: string
  output_value :: strval
  output_description :: string

section \<open>The network, the security group, the secret and the cluster\<close>

datatype subnet_type = PUBLIC | PRIVATE_WITH_EGRESS | PRIVATE_ISOLATED

record subnet_configuration =
  subnet_name :: string
  subnet_type :: subnet_type
  cidr_mask :: int

record vpc =
  vpc_id :: string
  max_azs :: int
  nat_gateways :: int
  subnet_configurations :: "subnet_configuration list"

definition vpc_cidr_block :: "vpc \<Rightarrow> strval" where
  "vpc_cidr_block v = Attr (vpc_id v) ''CidrBlock''"

text \<open>\<^verbatim>\<open>ec2.Peer.ipv4(cidr)\<close> and \<^verbatim>\<open>ec2.Port.tcp(port)\<close>\<close>

datatype peer = Peer_ipv4 strval

datatype protocol = TCP | UDP | ICMP | ALL_TRAFFIC

record port =
  port_protocol :: protocol
  from_port :: int
  to_port :: int

definition Port_tcp :: "int \<Rightarrow> port" where
  "Port_tcp p = \<lparr>port_protocol = TCP, from_port = p, to_port = p\<rparr>"

record ingress_rule =
  rule_peer :: peer
  rule_port :: port
  rule_description :: string

record security_group =
  sg_id :: string
  sg_vpc :: vpc
  sg_description :: string
  allow_all_outbound :: bool
  ingress_rules :: "ingress_rule list"

definition SecurityGroup :: "string \<Rightarrow> vpc \<Rightarrow> string \<Rightarrow> bool \<Rightarrow> security_group" where
  "SecurityGroup cid v descr outbound =
     \<lparr>sg_id = cid, sg_vpc = v, sg_description = descr, allow_all_outbound = outbound,
      ingress_rules = []\<rparr>"

definition add_ingress_rule :: "security_group \<Rightarrow> peer \<Rightarrow> port \<Rightarrow> string \<Rightarrow> security_group" where
  "add_ingress_rule g p c descr =
     g\<lparr>ingress_rules := ingress_rules g @
        [\<lparr>rule_peer = p, rule_port = c, rule_description = descr\<rparr>]\<rparr>"

text \<open>\<^verbatim>\<open>secretsmanager.SecretStringGenerator\<close> and \<^verbatim>\<open>secretsmanager.Secret\<close>\<close>

record secret_string_generator =
  secret_string_template :: string
  generate_string_key :: string
  exclude_characters :: string

record secret =
  secret_id :: string
  generate_secret_string :: secret_string_generator

definition secret_arn :: "secret \<Rightarrow> strval" where
  "secret_arn s = Attr (secret_id s) ''SecretArn''"

text \<open>The pieces of \<^verbatim>\<open>rds.DatabaseCluster\<close>\<close>

datatype cluster_engine = Aurora_postgres string

datatype credentials = From_secret secret

datatype instance_class = T3

datatype instance_size = MEDIUM

record instance_props =
  props_vpc :: vpc
  vpc_subnets :: subnet_type
  security_groups :: "security_group list"
  instance_type :: "instance_class \<times> instance_size"

text \<open>
  \<^verbatim>\<open>rds.InstanceProps(vpc=..., vpc_subnets=..., security_groups=..., instance_type=...)\<close>.
  The class has no keyword \<^verbatim>\<open>monitoring_role\<close>, and Python raises
  \<^verbatim>\<open>TypeError\<close> for a keyword a constructor does not have. The last argument
  stands for that keyword: \<open>Some r\<close> when the caller writes
  \<^verbatim>\<open>monitoring_role=r\<close>.
\<close>

definition InstanceProps ::
  "vpc \<Rightarrow> subnet_type \<Rightarrow> security_group list \<Rightarrow> instance_class \<times> instance_size \<Rightarrow>
   imported_role option \<Rightarrow> error + instance_props" where
  "InstanceProps v subnets groups ty monitoring_role_kw =
     (case monitoring_role_kw of
        Some r \<Rightarrow> Inl (TypeError ''monitoring_role'')
      | None \<Rightarrow>
          Inr \<lparr>props_vpc = v, vpc_subnets = subnets, security_groups = groups,
               instance_type = ty\<rparr>)"

record backup_props =
  retention :: duration
  preferred_window :: string

record parameter_group =
  parameter_group_id :: string
  parameter_group_name :: string

record database_cluster =
  cluster_id :: string
  engine :: cluster_engine
  cluster_credentials :: credentials
  cluster_instance_props :: instance_props
  instances :: int
  backup :: backup_props
  monitoring_interval :: duration
  cluster_parameter_group :: parameter_group
  cluster_removal_policy :: removal_policy

text \<open>
  \<^verbatim>\<open>rds.DatabaseCluster(self, id, engine=..., credentials=..., instance_props=...,
  instances=..., backup=..., monitoring_interval=..., parameter_group=...,
  removal_policy=...)\<close>. The class has no keyword \<^verbatim>\<open>associated_roles\<close>; the last
  argument stands for that keyword, as for \<open>InstanceProps\<close>.
\<close>

definition DatabaseCluster ::
  "string \<Rightarrow> cluster_engine \<Rightarrow> credentials \<Rightarrow> instance_props \<Rightarrow> int \<Rightarrow> backup_props \<Rightarrow>
   duration \<Rightarrow> parameter_group \<Rightarrow> removal_policy \<Rightarrow> imported_role list option \<Rightarrow>
   error + database_cluster" where
  "DatabaseCluster cid eng creds props n bk interval pg removal associated_roles_kw =
     (case associated_roles_kw of
        Some rs \<Rightarrow> Inl (TypeError ''associated_roles'')
      | None \<Rightarrow>
          Inr \<lparr>cluster_id = cid, engine = eng, cluster_credentials = creds,
               cluster_instance_props = props, instances = n, backup = bk,
               monitoring_interval = interval, cluster_parameter_group = pg,
               cluster_removal_policy = removal\<rparr>)"

definition cluster_endpoint_hostname :: "database_cluster \<Rightarrow> strval" where
  "cluster_endpoint_hostname c = Attr (cluster_id c) ''Endpoint.Address''"

section \<open>Stacks as trees of declared constructs\<close>

datatype construct =
    CVpc vpc
  | CSecurityGroup security_group
  | CSecret secret
  | CImportedRole imported_role
  | CParameterGroup parameter_group
  | CDatabaseCluster database_cluster
  | CRole role
  | CRepository repository
  | CfnOutput cfn_output

record stack =
  stack_id :: string
  stack_env :: environment
  children :: "construct list"

fun vpcs_of :: "construct list \<Rightarrow> vpc list" where
  "vpcs_of [] = []"
| "vpcs_of (CVpc v # cs) = v # vpcs_of cs"
| "vpcs_of (_ # cs) = vpcs_of cs"

fun security_groups_of :: "construct list \<Rightarrow> security_group list" where
  "security_groups_of [] = []"
| "security_groups_of (CSecurityGroup g # cs) = g # security_groups_of cs"
| "security_groups_of (_ # cs) = security_groups_of cs"

fun secrets_of :: "construct list \<Rightarrow> secret list" where
  "secrets_of [] = []"
| "secrets_of (CSecret s # cs) = s # secrets_of cs"
| "secrets_of (_ # cs) = secrets_of cs"

fun imported_roles_of :: "construct list \<Rightarrow> imported_role list" where
  "imported_roles_of [] = []"
| "imported_roles_of (CImportedRole r # cs) = r # imported_roles_of cs"
| "imported_roles_of (_ # cs) = imported_roles_of cs"

fun clusters_of :: "construct list \<Rightarrow> database_cluster list" where
  "clusters_of [] = []"
| "clusters_of (CDatabaseCluster c # cs) = c # clusters_of cs"
| "clusters_of (_ # cs) = clusters_of cs"

fun roles_of :: "construct list \<Rightarrow> role list" where
  "roles_of [] = []"
| "roles_of (CRole r # cs) = r # roles_of cs"
| "roles_of (_ # cs) = roles_of cs"

fun repositories_of :: "construct list \<Rightarrow> repository list" where
  "repositories_of [] = []"
| "repositories_of (CRepository r # cs) = r # repositories_of cs"
| "repositories_of (_ # cs) = repositories_of cs"

section \<open>container\_stack.py\<close>

definition ContainerStack :: "string \<Rightarrow> environment \<Rightarrow> stack" where
  "ContainerStack construct_id env =
    (let aaa_service_repo =
           \<lparr>repository_id = ''AaaServiceRepository'',
            repository_name = ''aaa-service'',
            repository_removal_policy = RETAIN,
            image_scan_on_push = True,
            lifecycle_rules =
              [\<lparr>max_image_count = 30,
                lifecycle_description = ''Keep only the last 30 images''\<rparr>]\<rparr>;
         spicedb_repo =
           \<lparr>repository_id = ''SpiceDBRepository'',
            repository_name = ''spicedb'',
            repository_removal_policy = RETAIN,
            image_scan_on_push = True,
            lifecycle_rules =
              [\<lparr>max_image_count = 10,
                lifecycle_description = ''Keep only the last 10 images''\<rparr>]\<rparr>;
         aadhaar_validation_repo =
           \<lparr>repository_id = ''AadhaarValidationRepository'',
            repository_name = ''aadhaar-validation-service'',
            repository_removal_policy = RETAIN,
            image_scan_on_push = True,
            lifecycle_rules =
              [\<lparr>max_image_count = 30,
                lifecycle_description = ''Keep only the last 30 images''\<rparr>]\<rparr>;
         ecr_access_role0 =
           Role ''EcrAccessRole'' ''ecs-tasks.amazonaws.com''
             ''Role for ECR access from ECS tasks'' [];
         ecr_access_role =
           add_to_policy ecr_access_role0
             (PolicyStatement ALLOW
                [''ecr:GetDownloadUrlForLayer'',
                 ''ecr:BatchGetImage'',
                 ''ecr:BatchCheckLayerAvailability'',
                 ''ecr:GetAuthorizationToken'']
                [repository_arn aaa_service_repo,
                 repository_arn spicedb_repo,
                 repository_arn aadhaar_validation_repo])
     in \<lparr>stack_id = construct_id, stack_env = env,
         children =
           [CRepository aaa_service_repo,
            CRepository spicedb_repo,
            CRepository aadhaar_validation_repo,
            CRole ecr_access_role,
            CfnOutput
              \<lparr>output_id = ''AaaServiceRepositoryURI'',
               output_value = repository_uri aaa_service_repo,
               output_description = ''AAA Service ECR repository URI''\<rparr>,
            CfnOutput
              \<lparr>output_id = ''SpiceDBRepositoryURI'',
               output_value = repository_uri spicedb_repo,
               output_description = ''SpiceDB ECR repository URI''\<rparr>,
            CfnOutput
              \<lparr>output_id = ''AadhaarValidationRepositoryURI'',
               output_value = repository_uri aadhaar_validation_repo,
               output_description = ''Aadhaar Validation Service ECR repository URI''\<rparr>]\<rparr>)"

section \<open>iam\_stack.py\<close>

text \<open>The list literal handed to \<^verbatim>\<open>actions=\<close> in the statement of the
  database-access role, entry for entry.\<close>

definition db_access_actions :: "string list" where
  "db_access_actions =
    [''rds-db:connect'',
     ''rds:DescribeDBInstances'',
     ''rds:DescribeDBClusters'',
     ''rds:ModifyDBInstance'',
     ''rds:ModifyDBCluster'',
     ''rds:StartDBInstance'',
     ''rds:StopDBInstance'',
     ''rds:RebootDBInstance'',
     ''rds:CreateDBInstance'',
     ''rds:DeleteDBInstance'',
     ''rds:CreateDBCluster'',
     ''rds:DeleteDBCluster'',
     ''rds:RestoreDBInstanceFromDBSnapshot'',
     ''rds:RestoreDBClusterFromSnapshot'',
     ''rds:CreateDBSnapshot'',
     ''rds:DeleteDBSnapshot'',
     ''rds:CopyDBSnapshot'',
     ''rds:CopyDBClusterSnapshot'',
     ''rds:DescribeDBSnapshots'',
     ''rds:DescribeDBClusterSnapshots'',
     ''rds:ModifyDBSnapshotAttribute'',
     ''rds:ModifyDBClusterSnapshotAttribute'',
     ''rds:RestoreDBInstanceToPointInTime'',
     ''rds:RestoreDBClusterToPointInTime'',
     ''rds:DescribeDBEngineVersions'',
     ''rds:DescribeOrderableDBInstanceOptions'',
     ''rds:DescribeDBParameters'',
     ''rds:DescribeDBClusterParameters'',
     ''rds:ModifyDBParameterGroup'',
     ''rds:ModifyDBClusterParameterGroup'',
     ''rds:DescribeEvents'',
     ''rds:DescribeEventSubscriptions'',
     ''rds:CreateEventSubscription'',
     ''rds:DeleteEventSubscription'',
     ''rds:ModifyEventSubscription'',
     ''rds:AddTagsToResource'',
     ''rds:RemoveTagsFromResource'',
     ''rds:ListTagsForResource'',
     ''rds:DescribeDBLogFiles'',
     ''rds:DownloadDBLogFilePortion'',
     ''rds:DescribeDBInstances'',
     ''rds:DescribeDBClusters'',
     ''rds:DescribeDBEngineVersions'',
     ''rds:DescribeDBParameterGroups'',
     ''rds:DescribeDBClusterParameterGroups'',
     ''rds:DescribeDBParameters'',
     ''rds:DescribeDBClusterParameters'',
     ''rds:DescribeOptionGroups'',
     ''rds:DescribeDBSubnetGroups'',
     ''rds:DescribeEventSubscriptions'',
     ''rds:DescribeEvents'',
     ''rds:DescribeOrderableDBInstanceOptions'',
     ''rds:DescribePendingMaintenanceActions'',
     ''rds:DescribeReservedDBInstances'',
     ''rds:DescribeReservedDBInstancesOfferings'',
     ''rds:DescribeSourceRegions'',
     ''rds:DescribeValidDBInstanceModifications'',
     ''rds:DescribeValidDBClusterModifications'',
     ''rds:DescribeDBClusterSnapshotAttributes'',
     ''rds:DescribeDBSnapshotAttributes'',
     ''rds:DescribeDBClusterEndpoints'',
     ''rds:DescribeDBClusterParameterGroups'',
     ''rds:DescribeDBClusterParameters'',
     ''rds:DescribeDBClusterSnapshots'',
     ''rds:DescribeDBClusters'',
     ''rds:DescribeDBInstances'',
     ''rds:DescribeDBParameterGroups'',
     ''rds:DescribeDBParameters'',
     ''rds:DescribeDBSnapshots'',
     ''rds:DescribeDBSubnetGroups'',
     ''rds:DescribeEventCategories'',
     ''rds:DescribeEventSubscriptions'',
     ''rds:DescribeEvents'',
     ''rds:DescribeOptionGroups'',
     ''rds:DescribeOrderableDBInstanceOptions'',
     ''rds:DescribePendingMaintenanceActions'',
     ''rds:DescribeReservedDBInstances'',
     ''rds:DescribeReservedDBInstancesOfferings'',
     ''rds:DescribeSourceRegions'',
     ''rds:DescribeValidDBInstanceModifications'',
     ''rds:DescribeValidDBClusterModifications'',
     ''rds:ListTagsForResource'',
     ''rds:ModifyDBCluster'',
     ''rds:ModifyDBClusterParameterGroup'',
     ''rds:ModifyDBClusterSnapshotAttribute'',
     ''rds:ModifyDBInstance'',
     ''rds:ModifyDBParameterGroup'',
     ''rds:ModifyDBSnapshotAttribute'',
     ''rds:ModifyEventSubscription'',
     ''rds:PromoteReadReplica'',
     ''rds:PromoteReadReplicaDBCluster'',
     ''rds:PurchaseReservedDBInstancesOffering'',
     ''rds:RebootDBInstance'',
     ''rds:RemoveTagsFromResource'',
     ''rds:ResetDBClusterParameterGroup'',
     ''rds:ResetDBParameterGroup'',
     ''rds:RestoreDBClusterFromSnapshot'',
     ''rds:RestoreDBClusterToPointInTime'',
     ''rds:RestoreDBInstanceFromDBSnapshot'',
     ''rds:RestoreDBInstanceToPointInTime'',
     ''rds:RevokeDBSecurityGroupIngress'',
     ''rds:StartDBCluster'',
     ''rds:StartDBInstance'',
     ''rds:StopDBCluster'',
     ''rds:StopDBInstance'']"

definition IamStack :: "string \<Rightarrow> environment \<Rightarrow> stack" where
  "IamStack construct_id env =
    (let db_access_role0 =
           Role ''DatabaseAccessRole'' ''rds.amazonaws.com''
             ''Role for database access and management''
             [''service-role/AmazonRDSEnhancedMonitoringRole'',
              ''service-role/AmazonRDSDirectoryServiceAccess''];
         db_access_role =
           add_to_policy db_access_role0
             (PolicyStatement ALLOW db_access_actions [Lit ''*'']);
         monitoring_role =
           Role ''DatabaseMonitoringRole'' ''monitoring.rds.amazonaws.com''
             ''Role for database monitoring and metrics''
             [''service-role/AmazonRDSEnhancedMonitoringRole''];
         backup_role =
           Role ''DatabaseBackupRole'' ''backup.amazonaws.com''
             ''Role for database backup operations''
             [''service-role/AWSBackupServiceRolePolicyForBackup'']
     in \<lparr>stack_id = construct_id, stack_env = env,
         children =
           [CRole db_access_role,
            CRole monitoring_role,
            CRole backup_role,
            CfnOutput
              \<lparr>output_id = ''DatabaseAccessRoleARN'',
               output_value = role_arn db_access_role,
               output_description = ''Database access role ARN''\<rparr>,
            CfnOutput
              \<lparr>output_id = ''DatabaseMonitoringRoleARN'',
               output_value = role_arn monitoring_role,
               output_description = ''Database monitoring role ARN''\<rparr>,
            CfnOutput
              \<lparr>output_id = ''DatabaseBackupRoleARN'',
               output_value = role_arn backup_role,
               output_description = ''Database backup role ARN''\<rparr>]\<rparr>)"

section \<open>database\_stack.py\<close>

text \<open>
  The deploy-time context is a dictionary of strings. \<^verbatim>\<open>node.try_get_context(key)\<close>
  returns the value stored under the key, and \<^verbatim>\<open>None\<close> when the key is absent;
  it never raises.
\<close>

type_synonym context_store = "string \<rightharpoonup> string"

definition try_get_context :: "context_store \<Rightarrow> string \<Rightarrow> string option" where
  "try_get_context ctx k = ctx k"

text \<open>
  \<^verbatim>\<open>iam.Role.from_role_arn(scope, id, role_arn: str)\<close> takes a string and parses it
  as an ARN. The source hands it the result of \<^verbatim>\<open>try_get_context\<close> unchecked: for
  \<^verbatim>\<open>None\<close> (the key is absent) the call raises \<^verbatim>\<open>TypeError\<close>, and for a
  string that has not the shape of an ARN it raises \<^verbatim>\<open>RuntimeError\<close>. The shape
  demanded is that of the library's parser: the string starts with \<^verbatim>\<open>arn:\<close> and
  its second, third and sixth components between colons (partition, service, resource) are
  not empty.
\<close>

fun split_on :: "char \<Rightarrow> string \<Rightarrow> string list" where
  "split_on c [] = [[]]"
| "split_on c (x # xs) =
     (if x = c then [] # split_on c xs
      else (case split_on c xs of
              [] \<Rightarrow> [[x]]
            | w # ws \<Rightarrow> (x # w) # ws))"

definition arn_shape_ok :: "string \<Rightarrow> bool" where
  "arn_shape_ok a =
     (case split_on CHR '':'' a of
        p0 # part # svc # reg # acct # res # rest \<Rightarrow>
          p0 = ''arn'' \<and> part \<noteq> [] \<and> svc \<noteq> [] \<and> res \<noteq> []
      | _ \<Rightarrow> False)"

definition from_role_arn :: "string \<Rightarrow> string option \<Rightarrow> error + imported_role" where
  "from_role_arn cid arn =
     (case arn of
        None \<Rightarrow> Inl (TypeError ''role_arn'')
      | Some a \<Rightarrow>
          if arn_shape_ok a then Inr \<lparr>imported_id = cid, imported_arn = a\<rparr>
          else Inl (RuntimeError a))"

text \<open>
  The constructor either returns the stack or raises; when it raises, the result carries
  the exception and the constructs that were declared in the stack before it.
\<close>

definition DatabaseStack ::
  "context_store \<Rightarrow> string \<Rightarrow> environment \<Rightarrow> (error \<times> construct list) + stack" where
  "DatabaseStack ctx construct_id env =
    (let vpc =
           \<lparr>vpc_id = ''DatabaseVPC'',
            max_azs = 2,
            nat_gateways = 1,
            subnet_configurations =
              [\<lparr>subnet_name = ''Public'', subnet_type = PUBLIC, cidr_mask = 24\<rparr>,
               \<lparr>subnet_name = ''Private'', subnet_type = PRIVATE_WITH_EGRESS,
                cidr_mask = 24\<rparr>]\<rparr>;
         db_security_group0 =
           SecurityGroup ''DatabaseSecurityGroup'' vpc
             ''Security group for Aurora PostgreSQL'' True;
         db_security_group =
           add_ingress_rule db_security_group0
             (Peer_ipv4 (vpc_cidr_block vpc))
             (Port_tcp 5432)
             ''Allow PostgreSQL traffic from VPC'';
         db_credentials =
           \<lparr>secret_id = ''DatabaseCredentials'',
            generate_secret_string =
              \<lparr>secret_string_template =
                 ''{'' @ [CHR 0x22] @ ''username'' @ [CHR 0x22] @ '': '' @
                 [CHR 0x22] @ ''aaa_user'' @ [CHR 0x22] @ ''}'',
               generate_string_key = ''password'',
               exclude_characters = [CHR 0x22, CHR ''@'', CHR ''/'', CHR 0x5C]\<rparr>\<rparr>;
         declared0 =
           [CVpc vpc, CSecurityGroup db_security_group, CSecret db_credentials]
     in case from_role_arn ''ImportedDatabaseAccessRole''
               (try_get_context ctx ''database_access_role_arn'') of
          Inl e \<Rightarrow> Inl (e, declared0)
        | Inr db_access_role \<Rightarrow>
     (case from_role_arn ''ImportedMonitoringRole''
               (try_get_context ctx ''monitoring_role_arn'') of
          Inl e \<Rightarrow> Inl (e, declared0 @ [CImportedRole db_access_role])
        | Inr monitoring_role \<Rightarrow>
     (case from_role_arn ''ImportedBackupRole''
               (try_get_context ctx ''backup_role_arn'') of
          Inl e \<Rightarrow>
            Inl (e, declared0 @
                    [CImportedRole db_access_role, CImportedRole monitoring_role])
        | Inr backup_role \<Rightarrow>
     (let declared1 =
            declared0 @
            [CImportedRole db_access_role, CImportedRole monitoring_role,
             CImportedRole backup_role]
      in case InstanceProps vpc PRIVATE_WITH_EGRESS [db_security_group] (T3, MEDIUM)
                (Some monitoring_role) of
           Inl e \<Rightarrow> Inl (e, declared1)
         | Inr props \<Rightarrow>
     (let parameter_group =
            \<lparr>parameter_group_id = ''ParameterGroup'',
             parameter_group_name = ''default.aurora-postgresql16''\<rparr>
      in case DatabaseCluster ''DatabaseCluster''
                (Aurora_postgres ''VER_16_1'')
                (From_secret db_credentials)
                props
                1
                \<lparr>retention = Days 7, preferred_window = ''03:00-04:00''\<rparr>
                (Seconds 60)
                parameter_group
                SNAPSHOT
                (Some [db_access_role, backup_role]) of
           Inl e \<Rightarrow> Inl (e, declared1 @ [CParameterGroup parameter_group])
         | Inr cluster \<Rightarrow>
             Inr \<lparr>stack_id = construct_id, stack_env = env,
                  children =
                    declared1 @
                    [CParameterGroup parameter_group,
                     CDatabaseCluster cluster,
                     CfnOutput
                       \<lparr>output_id = ''ClusterEndpoint'',
                        output_value = cluster_endpoint_hostname cluster,
                        output_description = ''Aurora PostgreSQL cluster endpoint''\<rparr>,
                     CfnOutput
                       \<lparr>output_id = ''SecretARN'',
                        output_value = secret_arn db_credentials,
                        output_description =
                          ''Database credentials secret ARN''\<rparr>]\<rparr>)))))"

section \<open>app.py\<close>

text \<open>
  The three stacks are built in the order of the source, each in the region
  \<^verbatim>\<open>ap-south-1\<close> with the account read from the context. An exception of a
  constructor is not caught: it ends the program, and \<^verbatim>\<open>app.synth()\<close> is reached
  only when all three constructors have returned. Its result is the list of stacks handed
  to the provisioning engine.
\<close>

definition synth :: "stack list \<Rightarrow> stack list" where
  "synth ss = ss"

definition app :: "context_store \<Rightarrow> error + stack list" where
  "app ctx =
    (let iam_stack =
           IamStack ''AaaServiceIamStack''
             \<lparr>region = ''ap-south-1'', account = try_get_context ctx ''account''\<rparr>
     in case DatabaseStack ctx ''AaaServiceDatabaseStack''
               \<lparr>region = ''ap-south-1'', account = try_get_context ctx ''account''\<rparr> of
          Inl (e, cs) \<Rightarrow> Inl e
        | Inr database_stack \<Rightarrow>
            (let container_stack =
                   ContainerStack ''AaaServiceContainerStack''
                     \<lparr>region = ''ap-south-1'',
                      account = try_get_context ctx ''account''\<rparr>
             in Inr (synth [iam_stack, database_stack, container_stack])))"

section \<open>Reading a stack\<close>

text \<open>
  The constructs a stack constructor has declared, whether it returned or raised, and
  the exception it raised, if any.
\<close>

fun declared :: "(error \<times> construct list) + stack \<Rightarrow> construct list" where
  "declared (Inl (e, cs)) = cs"
| "declared (Inr s) = children s"

fun raised :: "(error \<times> construct list) + stack \<Rightarrow> error option" where
  "raised (Inl (e, cs)) = Some e"
| "raised (Inr s) = None"

text \<open>A role of a stack, looked up by its construct id.\<close>

definition find_role :: "string \<Rightarrow> construct list \<Rightarrow> role option" where
  "find_role cid cs = List.find (\<lambda>r. role_id r = cid) (roles_of cs)"

text \<open>
  The three characters the specification calls connection-string-breaking: those that
  delimit a connection string \<^verbatim>\<open>user:password@host/database\<close> and its quoting,
  the double quote, the at sign and the slash.
\<close>

definition connection_string_breaking :: "char list" where
  "connection_string_breaking = [CHR 0x22, CHR ''@'', CHR ''/'']"

text \<open>
  Registry actions that push, write or delete are named by their verb; an action that
  begins with one of these verbs, or a wildcard, is a mutating one.
\<close>

fun starts_with :: "string \<Rightarrow> string \<Rightarrow> bool" where
  "starts_with [] s = True"
| "starts_with (p # ps) [] = False"
| "starts_with (p # ps) (c # cs) = (p = c \<and> starts_with ps cs)"

definition mutating_verbs :: "string list" where
  "mutating_verbs =
     [''Put'', ''Upload'', ''Initiate'', ''Complete'', ''Delete'', ''BatchDelete'',
      ''Create'', ''Set'', ''Tag'', ''Untag'', ''Start'', ''Replicate'', ''Update'',
      ''BatchImport'', ''*'']"

definition is_mutating_action :: "string \<Rightarrow> bool" where
  "is_mutating_action a =
     (a = ''*'' \<or> list_ex (\<lambda>v. starts_with (''ecr:'' @ v) a) mutating_verbs)"

text \<open>
  The three pull actions the specification names: auth-token retrieval, layer download
  and image batch-get.
\<close>

definition spec_pull_actions :: "string list" where
  "spec_pull_actions =
     [''ecr:GetAuthorizationToken'', ''ecr:GetDownloadUrlForLayer'', ''ecr:BatchGetImage'']"

text \<open>Three deploy-time contexts: one holding the three role identifiers, one without
  the backup role's, and one whose first identifier is not an ARN.\<close>

definition example_context :: context_store where
  "example_context =
     map_of
       [(''account'', ''123456789012''),
        (''database_access_role_arn'',
         ''arn:aws:iam::123456789012:role/DatabaseAccessRole''),
        (''monitoring_role_arn'',
         ''arn:aws:iam::123456789012:role/DatabaseMonitoringRole''),
        (''backup_role_arn'',
         ''arn:aws:iam::123456789012:role/DatabaseBackupRole'')]"

definition context_without_backup_role :: context_store where
  "context_without_backup_role =
     map_of
       [(''account'', ''123456789012''),
        (''database_access_role_arn'',
         ''arn:aws:iam::123456789012:role/DatabaseAccessRole''),
        (''monitoring_role_arn'',
         ''arn:aws:iam::123456789012:role/DatabaseMonitoringRole'')]"

definition context_with_malformed_role :: context_store where
  "context_with_malformed_role =
     map_of
       [(''database_access_role_arn'', ''not-an-arn''),
        (''monitoring_role_arn'',
         ''arn:aws:iam::123456789012:role/DatabaseMonitoringRole''),
        (''backup_role_arn'',
         ''arn:aws:iam::123456789012:role/DatabaseBackupRole'')]"

definition example_env :: environment where
  "example_env = \<lparr>region = ''ap-south-1'', account = Some ''123456789012''\<rparr>"

section \<open>Facts about the model\<close>

lemmas db_defs = DatabaseStack_def from_role_arn_def try_get_context_def Let_def
  SecurityGroup_def add_ingress_rule_def vpc_cidr_block_def Port_tcp_def
  InstanceProps_def DatabaseCluster_def

lemmas container_defs = ContainerStack_def Let_def Role_def add_to_policy_def
  repository_arn_def PolicyStatement_def ordered_set_def

lemma set_push_all: "set (push_all acc xs) = set acc \<union> set xs"
  by (induction xs arbitrary: acc) auto

lemma distinct_push_all: "distinct acc \<Longrightarrow> distinct (push_all acc xs)"
  by (induction xs arbitrary: acc) auto

lemma set_ordered_set: "set (ordered_set xs) = set xs"
  by (simp add: ordered_set_def set_push_all)

lemma distinct_ordered_set: "distinct (ordered_set xs)"
  by (simp add: ordered_set_def distinct_push_all)

lemma count_list_distinct: "distinct xs \<Longrightarrow> x \<in> set xs \<Longrightarrow> count_list xs x = 1"
  by (induction xs) auto

text \<open>The constructor of the database stack raises on every context.\<close>

lemma DatabaseStack_raises: "\<exists>e cs. DatabaseStack ctx i env = Inl (e, cs)"
  by (simp add: db_defs split: option.splits)

lemma app_raises: "\<exists>e. app ctx = Inl e"
proof -
  obtain e cs where
    "DatabaseStack ctx ''AaaServiceDatabaseStack''
       \<lparr>region = ''ap-south-1'', account = try_get_context ctx ''account''\<rparr> = Inl (e, cs)"
    using DatabaseStack_raises by blast
  then show ?thesis by (simp add: app_def)
qed

lemma example_arns_ok:
  "arn_shape_ok ''arn:aws:iam::123456789012:role/DatabaseAccessRole''"
  "arn_shape_ok ''arn:aws:iam::123456789012:role/DatabaseMonitoringRole''"
  "arn_shape_ok ''arn:aws:iam::123456789012:role/DatabaseBackupRole''"
  by (simp_all add: arn_shape_ok_def)

lemma malformed_identifiers_refused:
  "\<not> arn_shape_ok ''''" "\<not> arn_shape_ok ''not-an-arn''"
  by (simp_all add: arn_shape_ok_def)

lemma malformed_identifier_raises:
  "raised (DatabaseStack context_with_malformed_role ''AaaServiceDatabaseStack'' example_env)
     = Some (RuntimeError ''not-an-arn'')"
  by (simp add: db_defs context_with_malformed_role_def malformed_identifiers_refused)

lemma DatabaseStack_with_identifiers:
  assumes "ctx ''database_access_role_arn'' = Some a" and "arn_shape_ok a"
    and "ctx ''monitoring_role_arn'' = Some m" and "arn_shape_ok m"
    and "ctx ''backup_role_arn'' = Some b" and "arn_shape_ok b"
  shows "raised (DatabaseStack ctx i env) = Some (TypeError ''monitoring_role'')"
    and "clusters_of (declared (DatabaseStack ctx i env)) = []"
    and "imported_roles_of (declared (DatabaseStack ctx i env)) =
           [\<lparr>imported_id = ''ImportedDatabaseAccessRole'', imported_arn = a\<rparr>,
            \<lparr>imported_id = ''ImportedMonitoringRole'', imported_arn = m\<rparr>,
            \<lparr>imported_id = ''ImportedBackupRole'', imported_arn = b\<rparr>]"
  using assms by (simp_all add: db_defs)

lemma example_context_values:
  "example_context ''database_access_role_arn'' =
     Some ''arn:aws:iam::123456789012:role/DatabaseAccessRole''"
  "example_context ''monitoring_role_arn'' =
     Some ''arn:aws:iam::123456789012:role/DatabaseMonitoringRole''"
  "example_context ''backup_role_arn'' =
     Some ''arn:aws:iam::123456789012:role/DatabaseBackupRole''"
  by (simp_all add: example_context_def)

section \<open>The database stack\<close>

text \<open>
  C1. Whatever the context, the constructor declares one security group, in the declared
  network, with a single ingress rule; the rule admits TCP on port 5432 only, and its
  source is the address block of that network itself, which is not the range 0.0.0.0/0.
\<close>

theorem db_ingress_only_from_vpc:
  "\<exists>v g r. vpcs_of (declared (DatabaseStack ctx i env)) = [v] \<and>
     security_groups_of (declared (DatabaseStack ctx i env)) = [g] \<and>
     sg_vpc g = v \<and> ingress_rules g = [r] \<and>
     rule_port r = \<lparr>port_protocol = TCP, from_port = 5432, to_port = 5432\<rparr> \<and>
     rule_peer r = Peer_ipv4 (vpc_cidr_block v) \<and>
     rule_peer r \<noteq> Peer_ipv4 (Lit ''0.0.0.0/0'')"
  by (simp add: db_defs split: option.splits)

text \<open>
  C2, as the claim states it, fails: the excluded characters of the declared secret are
  four, the double quote, the at sign, the slash and the backslash, and the backslash is
  none of the three connection-string-breaking characters.
\<close>

theorem secret_excludes_a_fourth_character:
  "map (exclude_characters \<circ> generate_secret_string)
     (secrets_of
       (declared (DatabaseStack example_context ''AaaServiceDatabaseStack'' example_env)))
     = [[CHR 0x22, CHR ''@'', CHR ''/'', CHR 0x5C]] \<and>
   CHR 0x5C \<notin> set connection_string_breaking \<and>
   card (set [CHR 0x22, CHR ''@'', CHR ''/'', CHR 0x5C]) = 4"
  by (simp add: db_defs connection_string_breaking_def split: option.splits)

text \<open>
  C2, amended. Whatever the context, the constructor declares one secret; its template is
  exactly \<^verbatim>\<open>{"username": "aaa_user"}\<close>, its generated key is \<^verbatim>\<open>password\<close>,
  and its excluded characters are exactly four distinct ones: the three
  connection-string-breaking characters and the backslash.
\<close>

theorem secret_template_key_and_excluded_characters:
  "\<exists>c. secrets_of (declared (DatabaseStack ctx i env)) = [c] \<and>
     secret_string_template (generate_secret_string c) =
       ''{'' @ [CHR 0x22] @ ''username'' @ [CHR 0x22] @ '': '' @
       [CHR 0x22] @ ''aaa_user'' @ [CHR 0x22] @ ''}'' \<and>
     generate_string_key (generate_secret_string c) = ''password'' \<and>
     generate_string_key (generate_secret_string c) \<noteq> [] \<and>
     set connection_string_breaking \<subseteq>
       set (exclude_characters (generate_secret_string c)) \<and>
     set (exclude_characters (generate_secret_string c)) =
       set connection_string_breaking \<union> {CHR 0x5C} \<and>
     length (exclude_characters (generate_secret_string c)) = 4 \<and>
     distinct (exclude_characters (generate_secret_string c))"
  by (auto simp: db_defs connection_string_breaking_def split: option.splits)

text \<open>
  C3. With the three role identifiers in the context, the constructor raises
  \<^verbatim>\<open>TypeError\<close> while it builds the arguments of the cluster: no cluster is declared,
  and so no removal policy.
\<close>

theorem cluster_never_declared_no_removal_policy:
  "raised (DatabaseStack example_context ''AaaServiceDatabaseStack'' example_env) =
     Some (TypeError ''monitoring_role'') \<and>
   map cluster_removal_policy
     (clusters_of
       (declared (DatabaseStack example_context ''AaaServiceDatabaseStack'' example_env)))
     = []"
  by (simp add: DatabaseStack_with_identifiers [OF example_context_values(1) example_arns_ok(1)
        example_context_values(2) example_arns_ok(2)
        example_context_values(3) example_arns_ok(3)])

text \<open>
  C6. On no context does the constructor declare a cluster, and the program never reaches
  \<^verbatim>\<open>synth\<close>: the constructor raises before \<^verbatim>\<open>rds.DatabaseCluster\<close> is called,
  with the role identifiers present at the keyword \<^verbatim>\<open>monitoring_role\<close>. The network
  it has declared by then has two availability zones, one NAT gateway and a private tier.
\<close>

theorem cluster_construction_raises:
  "clusters_of (declared (DatabaseStack ctx i env)) = [] \<and>
   raised (DatabaseStack ctx i env) \<noteq> None \<and>
   raised (DatabaseStack example_context i env) = Some (TypeError ''monitoring_role'') \<and>
   app example_context = Inl (TypeError ''monitoring_role'') \<and>
   map max_azs (vpcs_of (declared (DatabaseStack ctx i env))) = [2] \<and>
   map nat_gateways (vpcs_of (declared (DatabaseStack ctx i env))) = [1] \<and>
   map (map subnet_type \<circ> subnet_configurations)
     (vpcs_of (declared (DatabaseStack ctx i env))) = [[PUBLIC, PRIVATE_WITH_EGRESS]]"
proof -
  have ex: "raised (DatabaseStack example_context i' env') = Some (TypeError ''monitoring_role'')"
    for i' env'
    by (rule DatabaseStack_with_identifiers(1) [OF example_context_values(1) example_arns_ok(1)
        example_context_values(2) example_arns_ok(2)
        example_context_values(3) example_arns_ok(3)])
  have "app example_context = Inl (TypeError ''monitoring_role'')"
    using ex [of "''AaaServiceDatabaseStack''"
          "\<lparr>region = ''ap-south-1'', account = try_get_context example_context ''account''\<rparr>"]
    by (cases "DatabaseStack example_context ''AaaServiceDatabaseStack''
          \<lparr>region = ''ap-south-1'', account = try_get_context example_context ''account''\<rparr>")
       (auto simp: app_def)
  moreover have "clusters_of (declared (DatabaseStack ctx i env)) = []"
    "raised (DatabaseStack ctx i env) \<noteq> None"
    "map max_azs (vpcs_of (declared (DatabaseStack ctx i env))) = [2]"
    "map nat_gateways (vpcs_of (declared (DatabaseStack ctx i env))) = [1]"
    "map (map subnet_type \<circ> subnet_configurations)
       (vpcs_of (declared (DatabaseStack ctx i env))) = [[PUBLIC, PRIVATE_WITH_EGRESS]]"
    by (simp_all add: db_defs split: option.splits)
  ultimately show ?thesis using ex by simp
qed

text \<open>
  C7. The constructor declares no role object on any context. With the three identifiers
  in the context, each an ARN, the roles it declares are the three imported by those ARN
  strings. When one of the three keys is absent, the constructor raises in the resolution
  of the roles, before a cluster is declared, and the program raises with it before
  \<^verbatim>\<open>synth\<close>: no stack is handed to the provisioning engine.
\<close>

theorem roles_resolved_from_context_or_construction_fails:
  "roles_of (declared (DatabaseStack ctx i env)) = [] \<and>
   (ctx ''database_access_role_arn'' = Some a \<and> arn_shape_ok a \<and>
    ctx ''monitoring_role_arn'' = Some m \<and> arn_shape_ok m \<and>
    ctx ''backup_role_arn'' = Some b \<and> arn_shape_ok b \<longrightarrow>
      imported_roles_of (declared (DatabaseStack ctx i env)) =
        [\<lparr>imported_id = ''ImportedDatabaseAccessRole'', imported_arn = a\<rparr>,
         \<lparr>imported_id = ''ImportedMonitoringRole'', imported_arn = m\<rparr>,
         \<lparr>imported_id = ''ImportedBackupRole'', imported_arn = b\<rparr>]) \<and>
   (ctx ''database_access_role_arn'' = None \<or> ctx ''monitoring_role_arn'' = None \<or>
    ctx ''backup_role_arn'' = None \<longrightarrow>
      (\<exists>e cs. DatabaseStack ctx i env = Inl (e, cs) \<and>
         (e = TypeError ''role_arn'' \<or> (\<exists>x. e = RuntimeError x)) \<and>
         clusters_of cs = [] \<and> length (imported_roles_of cs) < 3 \<and>
         app ctx = Inl e))"
  by (auto simp: app_def db_defs split: option.splits)

theorem roles_resolved_from_context_or_construction_fails_witness:
  "imported_roles_of
     (declared (DatabaseStack example_context ''AaaServiceDatabaseStack'' example_env)) =
     [\<lparr>imported_id = ''ImportedDatabaseAccessRole'',
       imported_arn = ''arn:aws:iam::123456789012:role/DatabaseAccessRole''\<rparr>,
      \<lparr>imported_id = ''ImportedMonitoringRole'',
       imported_arn = ''arn:aws:iam::123456789012:role/DatabaseMonitoringRole''\<rparr>,
      \<lparr>imported_id = ''ImportedBackupRole'',
       imported_arn = ''arn:aws:iam::123456789012:role/DatabaseBackupRole''\<rparr>] \<and>
   (\<exists>cs. DatabaseStack context_without_backup_role ''AaaServiceDatabaseStack'' example_env =
      Inl (TypeError ''role_arn'', cs) \<and> clusters_of cs = [] \<and>
      length (imported_roles_of cs) = 2) \<and>
   app context_without_backup_role = Inl (TypeError ''role_arn'')"
proof -
  have missing: "context_without_backup_role ''backup_role_arn'' = None"
    by (simp add: context_without_backup_role_def)
  have direct:
    "raised (DatabaseStack context_without_backup_role ''AaaServiceDatabaseStack''
       example_env) = Some (TypeError ''role_arn'')"
    "length (imported_roles_of (declared (DatabaseStack context_without_backup_role
       ''AaaServiceDatabaseStack'' example_env))) = 2"
    by (simp_all add: db_defs context_without_backup_role_def example_arns_ok)
  from roles_resolved_from_context_or_construction_fails
         [of context_without_backup_role "''AaaServiceDatabaseStack''" example_env] missing
  obtain e cs where f:
    "DatabaseStack context_without_backup_role ''AaaServiceDatabaseStack'' example_env =
       Inl (e, cs)"
    "clusters_of cs = []" "app context_without_backup_role = Inl e"
    by blast
  from f(1) direct have e: "e = TypeError ''role_arn''" and n: "length (imported_roles_of cs) = 2"
    by simp_all
  from roles_resolved_from_context_or_construction_fails
         [of example_context "''AaaServiceDatabaseStack''" example_env
             "''arn:aws:iam::123456789012:role/DatabaseAccessRole''"
             "''arn:aws:iam::123456789012:role/DatabaseMonitoringRole''"
             "''arn:aws:iam::123456789012:role/DatabaseBackupRole''"]
       example_context_values example_arns_ok
  have "imported_roles_of
     (declared (DatabaseStack example_context ''AaaServiceDatabaseStack'' example_env)) =
     [\<lparr>imported_id = ''ImportedDatabaseAccessRole'',
       imported_arn = ''arn:aws:iam::123456789012:role/DatabaseAccessRole''\<rparr>,
      \<lparr>imported_id = ''ImportedMonitoringRole'',
       imported_arn = ''arn:aws:iam::123456789012:role/DatabaseMonitoringRole''\<rparr>,
      \<lparr>imported_id = ''ImportedBackupRole'',
       imported_arn = ''arn:aws:iam::123456789012:role/DatabaseBackupRole''\<rparr>]"
    by blast
  with f e n show ?thesis by simp
qed

section \<open>The container stack\<close>

text \<open>
  C4. The pull role has one policy statement; its resource list has exactly 3 entries,
  the ARNs of the three declared repositories in declaration order, pairwise different,
  and none is the wildcard.
\<close>

theorem pull_role_resources_are_the_three_repositories:
  "\<exists>r st. roles_of (children (ContainerStack i e)) = [r] \<and> statements r = [st] \<and>
     resources st = map repository_arn (repositories_of (children (ContainerStack i e))) \<and>
     length (repositories_of (children (ContainerStack i e))) = 3 \<and>
     length (resources st) = 3 \<and> distinct (resources st) \<and>
     Lit ''*'' \<notin> set (resources st)"
  by (simp add: container_defs)

text \<open>
  C5. Each of the three repositories has scan-on-push enabled and a strictly positive
  retention cap; the caps are 30, 10 and 30 in declaration order.
\<close>

theorem repositories_scan_and_retention_caps:
  "map image_scan_on_push (repositories_of (children (ContainerStack i e))) =
     [True, True, True] \<and>
   map (map max_image_count \<circ> lifecycle_rules)
     (repositories_of (children (ContainerStack i e))) = [[30], [10], [30]] \<and>
   list_all
     (\<lambda>r. image_scan_on_push r \<and> lifecycle_rules r \<noteq> [] \<and>
          list_all (\<lambda>l. 0 < max_image_count l) (lifecycle_rules r))
     (repositories_of (children (ContainerStack i e)))"
  by (simp add: container_defs)

text \<open>
  C9. Each of the three repositories is declared with the removal policy RETAIN.
\<close>

theorem repositories_are_retained:
  "map repository_removal_policy (repositories_of (children (ContainerStack i e))) =
     [RETAIN, RETAIN, RETAIN]"
  by (simp add: container_defs)

text \<open>
  C10. The pull role's statement allows exactly four actions, the three pull actions and
  the layer-availability check, and none of them pushes, writes or deletes.
\<close>

theorem pull_role_grants_four_read_actions:
  "\<exists>r st. roles_of (children (ContainerStack i e)) = [r] \<and> statements r = [st] \<and>
     effect st = ALLOW \<and>
     actions st =
       [''ecr:GetDownloadUrlForLayer'', ''ecr:BatchGetImage'',
        ''ecr:BatchCheckLayerAvailability'', ''ecr:GetAuthorizationToken''] \<and>
     length (actions st) = 4 \<and> distinct (actions st) \<and>
     filter (\<lambda>a. a \<notin> set spec_pull_actions) (actions st) =
       [''ecr:BatchCheckLayerAvailability''] \<and>
     filter is_mutating_action (actions st) = []"
  by (simp add: container_defs is_mutating_action_def mutating_verbs_def
        spec_pull_actions_def)

section \<open>The access-control stack\<close>

lemma db_access_actions_length: "length db_access_actions = 105"
  by (simp add: db_access_actions_def)

lemma db_access_actions_as_set: "length (ordered_set db_access_actions) = 62"
  by (simp add: ordered_set_def db_access_actions_def)

text \<open>
  C8. The database-access role has one inline statement. Its resource list is the single
  wildcard entry. Its action list contains each action of the enumeration exactly once:
  the 105 entries written in the source name 62 actions, and the statement lists those 62,
  among them cluster and instance lifecycle, snapshot lifecycle, parameter-group and
  describe actions.
\<close>

theorem db_access_policy_wildcard_and_action_set:
  "\<exists>r st. find_role ''DatabaseAccessRole'' (children (IamStack i e)) = Some r \<and>
     statements r = [st] \<and> effect st = ALLOW \<and> resources st = [Lit ''*''] \<and>
     distinct (actions st) \<and> set (actions st) = set db_access_actions \<and>
     list_all (\<lambda>a. count_list (actions st) a = 1) db_access_actions \<and>
     length (actions st) = 62 \<and>
     list_all (\<lambda>a. a \<in> set (actions st))
       [''rds:CreateDBCluster'', ''rds:DeleteDBCluster'', ''rds:CreateDBInstance'',
        ''rds:DeleteDBInstance'', ''rds:CreateDBSnapshot'', ''rds:DeleteDBSnapshot'',
        ''rds:ModifyDBParameterGroup'', ''rds:ModifyDBClusterParameterGroup'',
        ''rds:DescribeDBInstances'', ''rds:DescribeDBClusters''] \<and>
     managed_policies r =
       [''service-role/AmazonRDSEnhancedMonitoringRole'',
        ''service-role/AmazonRDSDirectoryServiceAccess'']"
proof -
  define st where "st = PolicyStatement ALLOW db_access_actions [Lit ''*'']"
  define r where
    "r = add_to_policy
           (Role ''DatabaseAccessRole'' ''rds.amazonaws.com''
              ''Role for database access and management''
              [''service-role/AmazonRDSEnhancedMonitoringRole'',
               ''service-role/AmazonRDSDirectoryServiceAccess'']) st"
  have found: "find_role ''DatabaseAccessRole'' (children (IamStack i e)) = Some r"
    by (simp add: IamStack_def Let_def find_role_def r_def st_def Role_def add_to_policy_def)
  have role: "statements r = [st]"
    "managed_policies r =
       [''service-role/AmazonRDSEnhancedMonitoringRole'',
        ''service-role/AmazonRDSDirectoryServiceAccess'']"
    by (simp_all add: r_def Role_def add_to_policy_def)
  have acts: "actions st = ordered_set db_access_actions"
    and stmt: "effect st = ALLOW" "resources st = [Lit ''*'']"
    by (simp_all add: st_def PolicyStatement_def ordered_set_def)
  have d: "distinct (actions st)"
    and s: "set (actions st) = set db_access_actions"
    and n: "length (actions st) = 62"
    by (simp_all add: acts distinct_ordered_set set_ordered_set db_access_actions_as_set)
  have once: "list_all (\<lambda>a. count_list (actions st) a = 1) db_access_actions"
    using d s by (simp add: list_all_iff count_list_distinct)
  have kinds: "list_all (\<lambda>a. a \<in> set (actions st))
       [''rds:CreateDBCluster'', ''rds:DeleteDBCluster'', ''rds:CreateDBInstance'',
        ''rds:DeleteDBInstance'', ''rds:CreateDBSnapshot'', ''rds:DeleteDBSnapshot'',
        ''rds:ModifyDBParameterGroup'', ''rds:ModifyDBClusterParameterGroup'',
        ''rds:DescribeDBInstances'', ''rds:DescribeDBClusters'']"
    unfolding s by (simp add: db_access_actions_def)
  from found role stmt d s n once kinds show ?thesis by blast
qed

end
